theory Spec2Isabelle
  imports Main
begin

section \<open>Python values, exceptions and coroutines\<close>

text \<open>
  The repository is a FastAPI scaffold of three Python files: the route declarations
  (\<^verbatim>\<open>controllers/user_controller.py\<close>), the service class
  (\<^verbatim>\<open>services/user_service.py\<close>) and the bootstrap (\<^verbatim>\<open>main.py\<close>).

  The module \<^verbatim>\<open>models.user\<close> (classes \<^verbatim>\<open>User\<close>, \<^verbatim>\<open>UserCreate\<close>,
  \<^verbatim>\<open>UserUpdate\<close>) is imported but is not part of the sources, so the three classes are
  type parameters: \<open>'u\<close> for \<^verbatim>\<open>User\<close>, \<open>'uc\<close> for \<^verbatim>\<open>UserCreate\<close> and \<open>'uu\<close> for
  \<^verbatim>\<open>UserUpdate\<close>.

  Python is dynamically typed, so what a function returns is a Python object whatever its
  annotation says. The objects that occur in the sources are \<^verbatim>\<open>None\<close>, booleans,
  integers, strings, lists, dictionaries (kept as association lists, in insertion order)
  and instances of \<^verbatim>\<open>User\<close>.
\<close>

datatype 'u py_value =
    PyNone
  | PyBool bool
  | PyInt int
  | PyStr string
  | PyList "'u py_value list"
  | PyDict "(string \<times> 'u py_value) list"
  | PyUser 'u

text \<open>
  Exceptions are values. \<^verbatim>\<open>HTTPException(status_code=..., detail=...)\<close> is the only
  exception the sources raise by a statement; \<^verbatim>\<open>ValueError\<close> and \<^verbatim>\<open>TypeError\<close>
  are what the builtin \<^verbatim>\<open>int\<close> raises, \<^verbatim>\<open>NameError\<close> and \<^verbatim>\<open>AttributeError\<close>
  what the interpreter raises for a name that is not bound and for a method that an object
  does not have.
\<close>

datatype py_exception =
    HTTPException int string
  | ValueError
  | TypeError
  | NameError
  | AttributeError

text \<open>
  Every handler and method is an \<^verbatim>\<open>async def\<close> without any \<^verbatim>\<open>await\<close>: awaiting it runs
  the body to its end. The body runs in a process whose state (module globals, objects on
  the heap, whatever a database would hold) is the parameter \<open>'w\<close>; a call takes that
  state and gives back the outcome (\<open>Inl\<close> an exception raised, \<open>Inr\<close> the object
  returned) together with the state it leaves.
\<close>

type_synonym ('u, 'w) coroutine = "'w \<Rightarrow> (py_exception + 'u py_value) \<times> 'w"

section \<open>The controller: \<^verbatim>\<open>controllers/user_controller.py\<close>\<close>

definition get_all_users :: "('u, 'w) coroutine" where
  "get_all_users w = (Inr (PyList []), w)"

definition get_user :: "string \<Rightarrow> ('u, 'w) coroutine" where
  "get_user user_id w = (Inl (HTTPException 404 ''User not found''), w)"

text \<open>A body that is only \<^verbatim>\<open>pass\<close> falls off its end, and the call returns \<^verbatim>\<open>None\<close>.\<close>

definition create_user :: "'uc \<Rightarrow> ('u, 'w) coroutine" where
  "create_user user_data w = (Inr PyNone, w)"

definition update_user :: "string \<Rightarrow> 'uu \<Rightarrow> ('u, 'w) coroutine" where
  "update_user user_id user_data w = (Inr PyNone, w)"

definition delete_user :: "string \<Rightarrow> ('u, 'w) coroutine" where
  "delete_user user_id w = (Inr PyNone, w)"

section \<open>The service: \<^verbatim>\<open>services/user_service.py\<close>\<close>

text \<open>
  The class \<^verbatim>\<open>UserService\<close> declares no attribute and no constructor: an instance
  carries no data. The methods take it as \<^verbatim>\<open>self\<close> and never read it.
\<close>

datatype UserService = UserService

definition get_all :: "UserService \<Rightarrow> ('u, 'w) coroutine" where
  "get_all self w = (Inr (PyList []), w)"

definition get_by_id :: "UserService \<Rightarrow> string \<Rightarrow> ('u, 'w) coroutine" where
  "get_by_id self user_id w = (Inr PyNone, w)"

definition create :: "UserService \<Rightarrow> 'uc \<Rightarrow> ('u, 'w) coroutine" where
  "create self user_data w = (Inr PyNone, w)"

definition update :: "UserService \<Rightarrow> string \<Rightarrow> 'uu \<Rightarrow> ('u, 'w) coroutine" where
  "update self user_id user_data w = (Inr PyNone, w)"

definition delete :: "UserService \<Rightarrow> string \<Rightarrow> ('u, 'w) coroutine" where
  "delete self user_id w = (Inr (PyBool False), w)"

section \<open>The handlers' bodies and the service they could call\<close>

text \<open>
  Whether a handler consults the service is a question about its body, so the five bodies
  of the controller are also kept as syntax, statement for statement. The statements are
  those of the controller (\<^verbatim>\<open>return []\<close>, \<^verbatim>\<open>raise HTTPException(...)\<close>, \<^verbatim>\<open>pass\<close>);
  the expressions have one form more than the controller uses, the call of a method of the
  service on the handler's parameters, which is what a handler that delegated would
  contain.
\<close>

datatype expr = E_None | E_Empty_list | E_Service_call string "string list"

datatype stmt = S_Pass | S_Return expr | S_Raise py_exception

definition get_all_users_body :: stmt where
  "get_all_users_body = S_Return E_Empty_list"

definition get_user_body :: stmt where
  "get_user_body = S_Raise (HTTPException 404 ''User not found'')"

definition create_user_body :: stmt where
  "create_user_body = S_Pass"

definition update_user_body :: stmt where
  "update_user_body = S_Pass"

definition delete_user_body :: stmt where
  "delete_user_body = S_Pass"

fun service_calls :: "stmt \<Rightarrow> string list" where
  "service_calls (S_Return (E_Service_call m ns)) = [m]"
| "service_calls _ = []"

text \<open>
  A body runs with its parameters bound (\<open>locals\<close>) in a process that holds some
  implementation of the service in some state \<open>'s\<close>. An implementation takes the name of
  the method, the arguments and its state, and gives an outcome and a new state: it may
  be any function of that type.
\<close>

datatype ('uc, 'uu) argument = Arg_str string | Arg_create 'uc | Arg_update 'uu

type_synonym ('u, 'uc, 'uu, 's) service =
  "string \<Rightarrow> ('uc, 'uu) argument list \<Rightarrow> ('u, 's) coroutine"

fun eval :: "('u, 'uc, 'uu, 's) service \<Rightarrow> (string \<rightharpoonup> ('uc, 'uu) argument) \<Rightarrow> expr
    \<Rightarrow> ('u, 's) coroutine" where
  "eval svc locals E_None s = (Inr PyNone, s)"
| "eval svc locals E_Empty_list s = (Inr (PyList []), s)"
| "eval svc locals (E_Service_call m ns) s =
     (case those (map locals ns) of
        None \<Rightarrow> (Inl NameError, s)
      | Some args \<Rightarrow> svc m args s)"

fun exec :: "('u, 'uc, 'uu, 's) service \<Rightarrow> (string \<rightharpoonup> ('uc, 'uu) argument) \<Rightarrow> stmt
    \<Rightarrow> ('u, 's) coroutine" where
  "exec svc locals S_Pass s = (Inr PyNone, s)"
| "exec svc locals (S_Return e) s = eval svc locals e s"
| "exec svc locals (S_Raise x) s = (Inl x, s)"

text \<open>The class \<^verbatim>\<open>UserService\<close> of the sources is one such implementation.\<close>

definition user_service :: "('u, 'uc, 'uu, 's) service" where
  "user_service m args s =
     (if m = ''get_all'' then
        (case args of [] \<Rightarrow> get_all UserService s | _ \<Rightarrow> (Inl TypeError, s))
      else if m = ''get_by_id'' then
        (case args of [Arg_str user_id] \<Rightarrow> get_by_id UserService user_id s
         | _ \<Rightarrow> (Inl TypeError, s))
      else if m = ''create'' then
        (case args of [Arg_create user_data] \<Rightarrow> create UserService user_data s
         | _ \<Rightarrow> (Inl TypeError, s))
      else if m = ''update'' then
        (case args of [Arg_str user_id, Arg_update user_data] \<Rightarrow>
             update UserService user_id user_data s
         | _ \<Rightarrow> (Inl TypeError, s))
      else if m = ''delete'' then
        (case args of [Arg_str user_id] \<Rightarrow> delete UserService user_id s
         | _ \<Rightarrow> (Inl TypeError, s))
      else (Inl AttributeError, s))"

section \<open>Route declarations and the framework's contract\<close>

text \<open>
  A decorator such as \<^verbatim>\<open>@router.post("/", response_model=User, status_code=201)\<close>
  records a route: the method, the path (the router's prefix followed by the decorator's
  path), the declared response model, the declared status code and the function. The
  arguments are the source's; an argument a decorator leaves out is \<open>None\<close> here.
\<close>

datatype http_method = GET | POST | PUT | DELETE

datatype py_type = T_User | T_List py_type

datatype endpoint =
    Get_all_users | Get_user | Create_user | Update_user | Delete_user | Health_check
  | Openapi | Swagger_ui_html | Swagger_ui_redirect | Redoc_html

record route =
  path :: string
  http_method :: http_method
  response_model :: "py_type option"
  status_code :: "int option"
  endpoint :: endpoint

record api_router =
  prefix :: string
  tags :: "string list"
  router_routes :: "route list"

definition APIRouter :: "string \<Rightarrow> string list \<Rightarrow> api_router" where
  "APIRouter p ts = \<lparr>prefix = p, tags = ts, router_routes = []\<rparr>"

definition api_route ::
  "http_method \<Rightarrow> string \<Rightarrow> py_type option \<Rightarrow> int option \<Rightarrow> endpoint \<Rightarrow> api_router \<Rightarrow> api_router"
where
  "api_route m p rm sc e r =
     r\<lparr>router_routes := router_routes r @
        [\<lparr>path = prefix r @ p, http_method = m, response_model = rm, status_code = sc,
          endpoint = e\<rparr>]\<rparr>"

text \<open>The module \<^verbatim>\<open>user_controller\<close>: the router and its five decorated functions, in order.\<close>

definition router :: api_router where
  "router =
     (api_route DELETE ''/{user_id}'' None (Some 204) Delete_user
     (api_route PUT ''/{user_id}'' (Some T_User) None Update_user
     (api_route POST ''/'' (Some T_User) (Some 201) Create_user
     (api_route GET ''/{user_id}'' (Some T_User) None Get_user
     (api_route GET ''/'' (Some (T_List T_User)) None Get_all_users
     (APIRouter ''/api/users'' [''users'']))))))"

text \<open>
  What the framework does with a handler's outcome is not code of this repository; the
  part of its contract that the declarations above invoke is written out here.

  \<^item> A returned object is validated against the declared response model. An instance of
    \<^verbatim>\<open>User\<close> passes, \<^verbatim>\<open>None\<close> is no instance of a model class and fails, a list passes
    when each element does. Whether any other object (a dictionary, say) passes depends
    on the fields of \<^verbatim>\<open>User\<close>, which the sources do not give: that is the parameter
    \<open>schema\<close>.
  \<^item> With no response model the object is sent as it is.
  \<^item> The status of a successful response is the declared one, and 200 when none is.
  \<^item> An \<^verbatim>\<open>HTTPException\<close> becomes a response with its status and the body
    \<^verbatim>\<open>{"detail": ...}\<close>; a failed validation and any other exception are not answered
    by the handler's design at all: the request ends in an internal server error.
\<close>

fun validates :: "('u py_value \<Rightarrow> bool) \<Rightarrow> py_type \<Rightarrow> 'u py_value \<Rightarrow> bool" where
  "validates schema T_User v =
     (case v of PyUser u \<Rightarrow> True | PyNone \<Rightarrow> False | _ \<Rightarrow> schema v)"
| "validates schema (T_List t) v =
     (case v of PyList xs \<Rightarrow> list_all (validates schema t) xs | _ \<Rightarrow> False)"

datatype 'u http_response =
    Response int "'u py_value"
  | Internal_server_error

definition respond ::
  "('u py_value \<Rightarrow> bool) \<Rightarrow> route \<Rightarrow> py_exception + 'u py_value \<Rightarrow> 'u http_response"
where
  "respond schema r outcome =
     (case outcome of
        Inl (HTTPException code detail) \<Rightarrow> Response code (PyDict [(''detail'', PyStr detail)])
      | Inl _ \<Rightarrow> Internal_server_error
      | Inr v \<Rightarrow>
          (let code = (case status_code r of None \<Rightarrow> 200 | Some c \<Rightarrow> c) in
           case response_model r of
             None \<Rightarrow> Response code v
           | Some t \<Rightarrow> if validates schema t v then Response code v
                       else Internal_server_error))"

text \<open>
  A request reaches the first route of the application whose method is the request's and
  whose path template matches the request's path. Template and path are compared segment
  by segment (split at \<^verbatim>\<open>/\<close>): a segment \<^verbatim>\<open>{name}\<close> of the template matches any
  non-empty segment, any other segment matches itself only.
\<close>

fun split_on :: "char \<Rightarrow> string \<Rightarrow> string list" where
  "split_on c [] = [[]]"
| "split_on c (x # xs) =
     (if x = c then [] # split_on c xs
      else (case split_on c xs of [] \<Rightarrow> [[x]] | w # ws \<Rightarrow> (x # w) # ws))"

definition is_param :: "string \<Rightarrow> bool" where
  "is_param seg = (seg \<noteq> [] \<and> hd seg = CHR ''{'' \<and> last seg = CHR ''}'')"

fun match_segs :: "string list \<Rightarrow> string list \<Rightarrow> bool" where
  "match_segs [] [] = True"
| "match_segs (t # ts) (s # ss) =
     ((if is_param t then s \<noteq> [] else s = t) \<and> match_segs ts ss)"
| "match_segs _ _ = False"

definition match_path :: "string \<Rightarrow> string \<Rightarrow> bool" where
  "match_path template p = match_segs (split_on CHR ''/'' template) (split_on CHR ''/'' p)"

section \<open>The bootstrap: \<^verbatim>\<open>main.py\<close>\<close>

record cors_config =
  allow_origins :: "string list"
  allow_credentials :: bool
  allow_methods :: "string list"
  allow_headers :: "string list"

datatype middleware = CORSMiddleware cors_config

record fastapi_app =
  title :: string
  description :: string
  version :: string
  user_middleware :: "middleware list"
  app_routes :: "route list"

text \<open>
  \<^verbatim>\<open>main.py\<close> gives the constructor a title, a description and a version and leaves the
  documentation URLs at their defaults, so the framework mounts its four documentation
  routes, in this order, before any route of the program.
\<close>

definition docs_route :: "string \<Rightarrow> endpoint \<Rightarrow> route" where
  "docs_route p e =
     \<lparr>path = p, http_method = GET, response_model = None, status_code = None, endpoint = e\<rparr>"

definition FastAPI :: "string \<Rightarrow> string \<Rightarrow> string \<Rightarrow> fastapi_app" where
  "FastAPI t d v =
     \<lparr>title = t, description = d, version = v, user_middleware = [],
      app_routes =
        [docs_route ''/openapi.json'' Openapi,
         docs_route ''/docs'' Swagger_ui_html,
         docs_route ''/docs/oauth2-redirect'' Swagger_ui_redirect,
         docs_route ''/redoc'' Redoc_html]\<rparr>"

definition add_middleware :: "middleware \<Rightarrow> fastapi_app \<Rightarrow> fastapi_app" where
  "add_middleware m a = a\<lparr>user_middleware := m # user_middleware a\<rparr>"

definition app_get :: "string \<Rightarrow> endpoint \<Rightarrow> fastapi_app \<Rightarrow> fastapi_app" where
  "app_get p e a =
     a\<lparr>app_routes := app_routes a @
        [\<lparr>path = p, http_method = GET, response_model = None, status_code = None,
          endpoint = e\<rparr>]\<rparr>"

text \<open>
  \<^verbatim>\<open>app.include_router(user_router)\<close> appends the router's routes to the application's.
  In \<^verbatim>\<open>main.py\<close> the call stands in a comment: it is defined here to say what the
  bootstrap leaves out, and \<open>app\<close> below does not use it.
\<close>

definition include_router :: "api_router \<Rightarrow> fastapi_app \<Rightarrow> fastapi_app" where
  "include_router r a = a\<lparr>app_routes := app_routes a @ router_routes r\<rparr>"

definition health_check :: "('u, 'w) coroutine" where
  "health_check w = (Inr (PyDict [(''status'', PyStr ''ok''), (''version'', PyStr ''1.0.0'')]), w)"

definition app :: fastapi_app where
  "app =
     (app_get ''/health'' Health_check
     (add_middleware
        (CORSMiddleware
           \<lparr>allow_origins = [''*''], allow_credentials = True, allow_methods = [''*''],
            allow_headers = [''*'']\<rparr>)
     (FastAPI ''Migrated Application'' ''Application migrated to Python/FastAPI'' ''1.0.0'')))"

definition resolve :: "fastapi_app \<Rightarrow> http_method \<Rightarrow> string \<Rightarrow> route option" where
  "resolve a m p = find (\<lambda>r. http_method r = m \<and> match_path (path r) p) (app_routes a)"

subsection \<open>The CORS middleware's decision\<close>

text \<open>
  The middleware is the framework's. A browser asks before a cross-origin request (the
  preflight) with the origin, the method and, possibly, the header names it wants to send,
  and the middleware answers 200 or refuses with 400 and the list of what it refuses.
  \<^item> An origin is allowed when the configured list holds \<^verbatim>\<open>"*"\<close> or holds the origin.
  \<^item> A configured method list that holds \<^verbatim>\<open>"*"\<close> is replaced by the seven methods of
    \<open>ALL_METHODS\<close>; the requested method is allowed when it is in the list.
  \<^item> With \<^verbatim>\<open>"*"\<close> among the configured headers every requested header is allowed;
    otherwise each requested name (here as the middleware compares it: split at commas,
    stripped, in lower case) must be a configured or a safelisted one, in lower case.
  An application without the middleware gives a preflight no CORS answer at all.
\<close>

definition ALL_METHODS :: "string list" where
  "ALL_METHODS = [''DELETE'', ''GET'', ''HEAD'', ''OPTIONS'', ''PATCH'', ''POST'', ''PUT'']"

definition SAFELISTED_HEADERS :: "string list" where
  "SAFELISTED_HEADERS = [''Accept'', ''Accept-Language'', ''Content-Language'', ''Content-Type'']"

definition lower :: "string \<Rightarrow> string" where
  "lower s =
     map (\<lambda>c. let n = (of_char c :: nat) in if 65 \<le> n \<and> n \<le> 90 then char_of (n + 32) else c) s"

definition is_allowed_origin :: "cors_config \<Rightarrow> string \<Rightarrow> bool" where
  "is_allowed_origin cfg origin =
     (''*'' \<in> set (allow_origins cfg) \<or> origin \<in> set (allow_origins cfg))"

definition preflight_failures ::
  "cors_config \<Rightarrow> string \<Rightarrow> string \<Rightarrow> string list option \<Rightarrow> string list" where
  "preflight_failures cfg origin requested_method requested_headers =
     (let methods = (if ''*'' \<in> set (allow_methods cfg) then ALL_METHODS
                     else allow_methods cfg);
          headers = map lower (SAFELISTED_HEADERS @ allow_headers cfg)
      in (if is_allowed_origin cfg origin then [] else [''origin''])
         @ (if requested_method \<in> set methods then [] else [''method''])
         @ (case requested_headers of
              None \<Rightarrow> []
            | Some names \<Rightarrow>
                if ''*'' \<in> set (allow_headers cfg) then []
                else if list_all (\<lambda>h. h \<in> set headers) names then []
                else [''headers'']))"

datatype preflight_response = Preflight_ok | Preflight_refused "string list" | No_cors_answer

definition preflight ::
  "fastapi_app \<Rightarrow> string \<Rightarrow> string \<Rightarrow> string list option \<Rightarrow> preflight_response" where
  "preflight a origin requested_method requested_headers =
     (case user_middleware a of
        [] \<Rightarrow> No_cors_answer
      | CORSMiddleware cfg # _ \<Rightarrow>
          (case preflight_failures cfg origin requested_method requested_headers of
             [] \<Rightarrow> Preflight_ok
           | failures \<Rightarrow> Preflight_refused failures))"

definition starts_with :: "string \<Rightarrow> string \<Rightarrow> bool" where
  "starts_with pre s = (take (length pre) s = pre)"

subsection \<open>The entry point\<close>

text \<open>
  \<^verbatim>\<open>port = int(os.getenv("PORT", 8000))\<close>. The environment is a map from names to
  strings. \<^verbatim>\<open>os.getenv\<close> gives the variable's string when it is set and the default, here
  the integer 8000, as it is when not. \<^verbatim>\<open>int\<close> keeps an integer and parses a string in
  base 10, as the interpreter (CPython) does:
  \<^item> a string with a character beyond ASCII is first rewritten: a character below 127
    stays, the no-break space and the next-line character become a space, any other
    becomes \<^verbatim>\<open>?\<close> (a character is a code point below 256 here, and none of those beyond
    ASCII is a decimal digit; the strings with code points from 256 on are not in the type);
  \<^item> white space (tab, line feed, vertical tab, form feed, carriage return, space) is
    dropped at both ends;
  \<^item> one sign may lead; then come the digits, which may be grouped by single underscores;
  \<^item> when the interpreter has a limit on the number of digits (\<open>max_str_digits\<close>: 4300
    unless it is configured otherwise, which can be to 0 for no limit or to a number from
    640 on) and the string has more digits, the conversion is refused;
  \<^item> everything else, and a refusal, is \<^verbatim>\<open>ValueError\<close>.
\<close>

definition to_ascii :: "string \<Rightarrow> string" where
  "to_ascii s =
     (if list_all (\<lambda>c. (of_char c :: nat) < 128) s then s
      else map (\<lambda>c. let n = (of_char c :: nat) in
                    if n < 127 then c
                    else if n = 133 \<or> n = 160 then CHR '' ''
                    else CHR ''?'') s)"

definition is_space :: "char \<Rightarrow> bool" where
  "is_space c = (let n = (of_char c :: nat) in (9 \<le> n \<and> n \<le> 13) \<or> n = 32)"

definition strip :: "string \<Rightarrow> string" where
  "strip s = rev (dropWhile is_space (rev (dropWhile is_space s)))"

definition digit_of :: "char \<Rightarrow> nat option" where
  "digit_of c = (let n = (of_char c :: nat) in if 48 \<le> n \<and> n \<le> 57 then Some (n - 48) else None)"

definition is_digit :: "char \<Rightarrow> bool" where
  "is_digit c = (digit_of c \<noteq> None)"

fun digits :: "nat \<Rightarrow> string \<Rightarrow> nat option" where
  "digits acc [] = Some acc"
| "digits acc [c] = (case digit_of c of None \<Rightarrow> None | Some k \<Rightarrow> Some (10 * acc + k))"
| "digits acc (c # d # cs) =
     (if c = CHR ''_'' then
        (case digit_of d of None \<Rightarrow> None | Some k \<Rightarrow> digits (10 * acc + k) cs)
      else
        (case digit_of c of None \<Rightarrow> None | Some k \<Rightarrow> digits (10 * acc + k) (d # cs)))"

definition parse_nat :: "nat \<Rightarrow> string \<Rightarrow> nat option" where
  "parse_nat max_str_digits s =
     (case s of [] \<Rightarrow> None
      | c # cs \<Rightarrow>
          (case digit_of c of None \<Rightarrow> None
           | Some k \<Rightarrow>
               (case digits k cs of None \<Rightarrow> None
                | Some n \<Rightarrow>
                    if 0 < max_str_digits \<and> max_str_digits < length (filter is_digit s)
                    then None else Some n)))"

definition int_of_str :: "nat \<Rightarrow> string \<Rightarrow> py_exception + int" where
  "int_of_str max_str_digits s =
     (case strip (to_ascii s) of
        [] \<Rightarrow> Inl ValueError
      | c # cs \<Rightarrow>
          if c = CHR ''-'' then
            (case parse_nat max_str_digits cs of
               None \<Rightarrow> Inl ValueError | Some n \<Rightarrow> Inr (- int n))
          else if c = CHR ''+'' then
            (case parse_nat max_str_digits cs of
               None \<Rightarrow> Inl ValueError | Some n \<Rightarrow> Inr (int n))
          else
            (case parse_nat max_str_digits (c # cs) of
               None \<Rightarrow> Inl ValueError | Some n \<Rightarrow> Inr (int n)))"

fun py_int :: "nat \<Rightarrow> 'u py_value \<Rightarrow> py_exception + int" where
  "py_int max_str_digits (PyInt n) = Inr n"
| "py_int max_str_digits (PyBool b) = Inr (if b then 1 else 0)"
| "py_int max_str_digits (PyStr s) = int_of_str max_str_digits s"
| "py_int max_str_digits _ = Inl TypeError"


definition os_getenv :: "(string \<rightharpoonup> string) \<Rightarrow> string \<Rightarrow> 'u py_value \<Rightarrow> 'u py_value" where
  "os_getenv environ key dflt =
     (case environ key of None \<Rightarrow> dflt | Some s \<Rightarrow> PyStr s)"

text \<open>
  \<^verbatim>\<open>load_dotenv()\<close> runs when the module is loaded: the variables of the \<^verbatim>\<open>.env\<close> file
  are added to the environment, and a variable that is already set keeps its value.
\<close>

definition load_dotenv :: "(string \<rightharpoonup> string) \<Rightarrow> (string \<rightharpoonup> string) \<Rightarrow> (string \<rightharpoonup> string)" where
  "load_dotenv dotenv environ = dotenv ++ environ"

text \<open>
  The \<^verbatim>\<open>__main__\<close> block ends in \<^verbatim>\<open>uvicorn.run("main:app", host="0.0.0.0", port=port,
  reload=True)\<close>; the model gives the arguments of that call, or the exception that is
  raised before it. Its first parameter is the interpreter's digit limit.
\<close>

record uvicorn_run =
  app_import :: string
  host :: string
  port :: int
  reload :: bool

definition main ::
  "nat \<Rightarrow> (string \<rightharpoonup> string) \<Rightarrow> (string \<rightharpoonup> string) \<Rightarrow> py_exception + uvicorn_run" where
  "main max_str_digits dotenv environ =
     (case py_int max_str_digits
             (os_getenv (load_dotenv dotenv environ) ''PORT'' (PyInt 8000 :: unit py_value)) of
        Inl e \<Rightarrow> Inl e
      | Inr p \<Rightarrow> Inr \<lparr>app_import = ''main:app'', host = ''0.0.0.0'', port = p, reload = True\<rparr>)"

section \<open>The route tables, computed\<close>

lemma router_routes_eq:
  "router_routes router =
     [\<lparr>path = ''/api/users/'', http_method = GET, response_model = Some (T_List T_User),
        status_code = None, endpoint = Get_all_users\<rparr>,
      \<lparr>path = ''/api/users/{user_id}'', http_method = GET, response_model = Some T_User,
        status_code = None, endpoint = Get_user\<rparr>,
      \<lparr>path = ''/api/users/'', http_method = POST, response_model = Some T_User,
        status_code = Some 201, endpoint = Create_user\<rparr>,
      \<lparr>path = ''/api/users/{user_id}'', http_method = PUT, response_model = Some T_User,
        status_code = None, endpoint = Update_user\<rparr>,
      \<lparr>path = ''/api/users/{user_id}'', http_method = DELETE, response_model = None,
        status_code = Some 204, endpoint = Delete_user\<rparr>]"
  by (simp add: router_def api_route_def APIRouter_def)

lemma app_routes_eq:
  "app_routes app =
     [\<lparr>path = ''/openapi.json'', http_method = GET, response_model = None,
        status_code = None, endpoint = Openapi\<rparr>,
      \<lparr>path = ''/docs'', http_method = GET, response_model = None,
        status_code = None, endpoint = Swagger_ui_html\<rparr>,
      \<lparr>path = ''/docs/oauth2-redirect'', http_method = GET, response_model = None,
        status_code = None, endpoint = Swagger_ui_redirect\<rparr>,
      \<lparr>path = ''/redoc'', http_method = GET, response_model = None,
        status_code = None, endpoint = Redoc_html\<rparr>,
      \<lparr>path = ''/health'', http_method = GET, response_model = None, status_code = None,
        endpoint = Health_check\<rparr>]"
  by (simp add: app_def app_get_def add_middleware_def FastAPI_def docs_route_def)

lemma user_middleware_eq:
  "user_middleware app =
     [CORSMiddleware \<lparr>allow_origins = [''*''], allow_credentials = True,
        allow_methods = [''*''], allow_headers = [''*'']\<rparr>]"
  by (simp add: app_def app_get_def add_middleware_def FastAPI_def)

text \<open>Splitting never gives the empty list: a string without the separator is one segment.\<close>

lemma split_on_not_Nil: "split_on c s \<noteq> []"
  by (induction s) (auto split: list.splits)

lemma split_under_users:
  assumes "starts_with ''/api/users'' p"
  shows "\<exists>w ws. split_on CHR ''/'' p = [] # ''api'' # w # ws"
proof -
  from assms obtain rest where p: "p = ''/api/users'' @ rest"
    unfolding starts_with_def by (metis append_take_drop_id)
  obtain w ws where "split_on CHR ''/'' (''users'' @ rest) = w # ws"
    using split_on_not_Nil [of "CHR ''/''" "''users'' @ rest"]
    by (cases "split_on CHR ''/'' (''users'' @ rest)") auto
  then show ?thesis unfolding p by simp
qed

text \<open>No path under \<^verbatim>\<open>/api/users\<close> matches a template of the application.\<close>

lemma no_match_app_paths:
  assumes "starts_with ''/api/users'' p"
  shows "\<not> match_path ''/openapi.json'' p" and "\<not> match_path ''/docs'' p"
    and "\<not> match_path ''/docs/oauth2-redirect'' p" and "\<not> match_path ''/redoc'' p"
    and "\<not> match_path ''/health'' p"
  using split_under_users [OF assms] by (auto simp: match_path_def is_param_def)

text \<open>
  The dispatch is not vacuous: had the bootstrap included the router, a request for a user
  would reach \<^verbatim>\<open>get_user\<close>, and the list request \<^verbatim>\<open>get_all_users\<close>.
\<close>

lemma resolve_with_router_included:
  "map_option endpoint (resolve (include_router router app) GET ''/api/users/42'') = Some Get_user"
  "map_option endpoint (resolve (include_router router app) GET ''/api/users/'') = Some Get_all_users"
  "map_option endpoint (resolve (include_router router app) DELETE ''/api/users/42'') = Some Delete_user"
  by (simp_all add: resolve_def include_router_def app_routes_eq router_routes_eq match_path_def
      is_param_def)

section \<open>The parser on strings of digits\<close>








text \<open>The parser on a few environment strings.\<close>

lemma int_of_str_examples:
  "int_of_str 4300 ''8080'' = Inr 8080"
  "int_of_str 4300 ''9000'' = Inr 9000"
  "int_of_str 4300 '' 8_080 '' = Inr 8080"
  "int_of_str 4300 ''-1'' = Inr (- 1)"
  "int_of_str 4300 ''http'' = Inl ValueError"
  "int_of_str 4300 ''eighty'' = Inl ValueError"
  "int_of_str 4300 [] = Inl ValueError"
  "int_of_str 4300 (CHR 0x1C # ''8080'') = Inl ValueError"
  by (simp_all add: int_of_str_def to_ascii_def strip_def is_space_def parse_nat_def digit_of_def
      is_digit_def)

text \<open>\<^verbatim>\<open>int\<close> on a string raises nothing but \<^verbatim>\<open>ValueError\<close>.\<close>

lemma int_of_str_error: "int_of_str max_str_digits s = Inl e \<Longrightarrow> e = ValueError"
  by (auto simp: int_of_str_def split: list.splits if_splits option.splits)

text \<open>
  The interpreter is not vacuous either: a body that called the service would give what
  the implementation in the process gives.
\<close>

lemma delegating_body_depends_on_service:
  "fst (exec user_service [''user_id'' \<mapsto> Arg_str ''42'']
          (S_Return (E_Service_call ''get_by_id'' [''user_id''])) s) = Inr PyNone"
  "fst (exec (\<lambda>m args s. (Inr (PyStr ''found''), s)) [''user_id'' \<mapsto> Arg_str ''42'']
          (S_Return (E_Service_call ''get_by_id'' [''user_id''])) s) = Inr (PyStr ''found'')"
  by (simp_all add: user_service_def get_by_id_def)

section \<open>Results\<close>

text \<open>
  \<^bold>\<open>C1\<close>. For every \<^verbatim>\<open>user_id\<close>, well-formed or not, the handler \<^verbatim>\<open>get_user\<close> raises
  \<^verbatim>\<open>HTTPException(status_code=404, detail="User not found")\<close>, which the framework
  answers with status 404 and that detail, and \<^verbatim>\<open>UserService.get_by_id\<close> returns
  \<^verbatim>\<open>None\<close>. Neither produces a user for any \<^verbatim>\<open>user_id\<close>.
\<close>

theorem get_by_id_never_finds:
  "get_user user_id w = (Inl (HTTPException 404 ''User not found''), w)
   \<and> respond schema (router_routes router ! 1) (fst (get_user user_id w))
       = Response 404 (PyDict [(''detail'', PyStr ''User not found'')])
   \<and> get_by_id self user_id w = (Inr PyNone, w)
   \<and> (\<nexists>uid u. fst (get_user uid w) = Inr (PyUser u))
   \<and> (\<nexists>uid u. fst (get_by_id self uid w) = Inr (PyUser u))"
  by (simp add: get_user_def get_by_id_def respond_def)

text \<open>
  \<^bold>\<open>C2\<close>. \<^verbatim>\<open>health_check\<close> returns the dictionary with the two keys \<^verbatim>\<open>status\<close> and
  \<^verbatim>\<open>version\<close>, of values \<^verbatim>\<open>"ok"\<close> and \<^verbatim>\<open>"1.0.0"\<close>, and nothing else; the route
  \<^verbatim>\<open>GET /health\<close> of the application answers with it under status 200. It takes no
  argument, the result is the same in every state of the process, and it leaves the state
  as it was, so no call depends on an earlier one.
\<close>

theorem health_check_exact:
  "health_check w = (Inr (PyDict [(''status'', PyStr ''ok''), (''version'', PyStr ''1.0.0'')]), w)
   \<and> fst (health_check w) = fst (health_check w')
   \<and> resolve app GET ''/health'' = Some (app_routes app ! 4)
   \<and> endpoint (app_routes app ! 4) = Health_check
   \<and> respond schema (app_routes app ! 4) (fst (health_check w))
       = Response 200 (PyDict [(''status'', PyStr ''ok''), (''version'', PyStr ''1.0.0'')])"
  by (simp add: health_check_def resolve_def app_routes_eq match_path_def is_param_def
      respond_def)

text \<open>
  \<^bold>\<open>C3\<close>. The bootstrap does not register the user router. The routes of the
  application are the framework's four documentation routes and \<^verbatim>\<open>GET /health\<close>; none
  of them lies under \<^verbatim>\<open>/api/users\<close>, where all five routes of the controller lie; a
  request for any path under \<^verbatim>\<open>/api/users\<close>, by any method, reaches no route; and
  whatever a request reaches, it is never one of the controller's five functions.
\<close>

theorem user_router_not_registered:
  "map path (app_routes app)
     = [''/openapi.json'', ''/docs'', ''/docs/oauth2-redirect'', ''/redoc'', ''/health'']
   \<and> map endpoint (app_routes app)
       = [Openapi, Swagger_ui_html, Swagger_ui_redirect, Redoc_html, Health_check]
   \<and> filter (\<lambda>r. starts_with ''/api/users'' (path r)) (app_routes app) = []
   \<and> map endpoint (router_routes router)
       = [Get_all_users, Get_user, Create_user, Update_user, Delete_user]
   \<and> list_all (\<lambda>r. starts_with ''/api/users'' (path r)) (router_routes router)
   \<and> (starts_with ''/api/users'' p \<longrightarrow> resolve app m p = None)
   \<and> map_option endpoint (resolve app m' p') \<notin> Some ` set (map endpoint (router_routes router))"
proof -
  have "starts_with ''/api/users'' p \<longrightarrow> resolve app m p = None"
    using no_match_app_paths [of p] by (simp add: resolve_def app_routes_eq)
  moreover have "map_option endpoint (resolve app m' p')
      \<notin> Some ` set (map endpoint (router_routes router))"
    by (simp add: resolve_def app_routes_eq router_routes_eq)
  ultimately show ?thesis
    by (simp add: app_routes_eq router_routes_eq starts_with_def)
qed

theorem user_router_not_registered_witness:
  "starts_with ''/api/users'' ''/api/users/42'' \<and> resolve app GET ''/api/users/42'' = None"
  using user_router_not_registered [where p = "''/api/users/42''" and m = GET]
  by (simp add: starts_with_def)

text \<open>
  \<^bold>\<open>C4\<close>. \<^verbatim>\<open>create_user\<close>, \<^verbatim>\<open>update_user\<close> and \<^verbatim>\<open>delete_user\<close> have no
  \<^verbatim>\<open>return\<close>: for every argument each yields \<^verbatim>\<open>None\<close>. \<^verbatim>\<open>POST\<close> and \<^verbatim>\<open>PUT\<close> declare
  the response model \<^verbatim>\<open>User\<close>, which \<^verbatim>\<open>None\<close> does not satisfy whatever the fields of
  \<^verbatim>\<open>User\<close> are, so a request that runs either handler ends in an internal server error;
  \<^verbatim>\<open>DELETE\<close> declares no response model and answers 204 with \<^verbatim>\<open>None\<close>.
\<close>

theorem write_handlers_yield_None:
  "create_user user_data w = (Inr PyNone, w)
   \<and> update_user user_id user_update w = (Inr PyNone, w)
   \<and> delete_user user_id w = (Inr PyNone, w)
   \<and> map response_model (router_routes router)
       = [Some (T_List T_User), Some T_User, Some T_User, Some T_User, None]
   \<and> \<not> validates schema T_User PyNone
   \<and> respond schema (router_routes router ! 2) (fst (create_user user_data w))
       = Internal_server_error
   \<and> respond schema (router_routes router ! 3) (fst (update_user user_id user_update w))
       = Internal_server_error
   \<and> respond schema (router_routes router ! 4) (fst (delete_user user_id w))
       = Response 204 PyNone"
  by (simp add: create_user_def update_user_def delete_user_def router_routes_eq respond_def)

text \<open>
  \<^bold>\<open>C5\<close>. Both list operations return the empty list on every call: the handler
  \<^verbatim>\<open>get_all_users\<close>, whose route \<^verbatim>\<open>GET /api/users/\<close> answers \<^verbatim>\<open>[]\<close> with status 200,
  and the method \<^verbatim>\<open>UserService.get_all\<close>.
\<close>

theorem list_operations_empty:
  "get_all_users w = (Inr (PyList []), w)
   \<and> respond schema (router_routes router ! 0) (fst (get_all_users w)) = Response 200 (PyList [])
   \<and> get_all self w = (Inr (PyList []), w)"
  by (simp add: get_all_users_def get_all_def router_routes_eq respond_def)

text \<open>
  \<^bold>\<open>C6\<close>. The three write methods of the service have no effect and return a default
  value, whatever they are given: \<^verbatim>\<open>create\<close> falls through and returns \<^verbatim>\<open>None\<close>,
  \<^verbatim>\<open>update\<close> returns \<^verbatim>\<open>None\<close> and \<^verbatim>\<open>delete\<close> returns \<^verbatim>\<open>False\<close>; the state of the
  process after the call is the state before it.
\<close>

theorem service_writes_are_placeholders:
  "create self user_data w = (Inr PyNone, w)
   \<and> update self user_id user_update w = (Inr PyNone, w)
   \<and> delete self user_id w = (Inr (PyBool False), w)"
  by (simp add: create_def update_def delete_def)

text \<open>
  \<^bold>\<open>C7\<close>. No body of the controller calls a method of the service. So for any two
  implementations of the service, in any two states, each of the five bodies run on the
  same parameters has the same outcome, and it leaves the service's state as it was. The
  five handlers are these bodies: whatever the implementation and its state, a handler's
  outcome is its body's.
\<close>

theorem handlers_independent_of_service:
  "map service_calls
       [get_all_users_body, get_user_body, create_user_body, update_user_body, delete_user_body]
     = [[], [], [], [], []]
   \<and> exec svc1 locals get_all_users_body s1 = (fst (exec svc2 locals get_all_users_body s2), s1)
   \<and> exec svc1 locals get_user_body s1 = (fst (exec svc2 locals get_user_body s2), s1)
   \<and> exec svc1 locals create_user_body s1 = (fst (exec svc2 locals create_user_body s2), s1)
   \<and> exec svc1 locals update_user_body s1 = (fst (exec svc2 locals update_user_body s2), s1)
   \<and> exec svc1 locals delete_user_body s1 = (fst (exec svc2 locals delete_user_body s2), s1)
   \<and> get_all_users w = (fst (exec svc Map.empty get_all_users_body s), w)
   \<and> get_user user_id w
       = (fst (exec svc [''user_id'' \<mapsto> Arg_str user_id] get_user_body s), w)
   \<and> create_user user_data w
       = (fst (exec svc [''user_data'' \<mapsto> Arg_create user_data] create_user_body s), w)
   \<and> update_user user_id user_update w
       = (fst (exec svc [''user_id'' \<mapsto> Arg_str user_id, ''user_data'' \<mapsto> Arg_update user_update]
                 update_user_body s), w)
   \<and> delete_user user_id w
       = (fst (exec svc [''user_id'' \<mapsto> Arg_str user_id] delete_user_body s), w)"
  by (simp add: get_all_users_body_def get_user_body_def create_user_body_def
      update_user_body_def delete_user_body_def get_all_users_def get_user_def create_user_def
      update_user_def delete_user_def)

text \<open>
  \<^bold>\<open>C8\<close> (for the standard methods). The application has one middleware, the CORS middleware,
  configured with the wildcard for origins, for methods and for headers, and with
  credentials allowed. A preflight is answered for every origin, with or without requested
  headers, whatever they are, when the requested method is one of the seven standard
  methods; for any other method it is refused, for the method alone.
\<close>

theorem cors_open_for_standard_methods:
  "map (\<lambda>mw. case mw of CORSMiddleware cfg \<Rightarrow>
              (allow_origins cfg, allow_credentials cfg, allow_methods cfg, allow_headers cfg))
       (user_middleware app)
     = [([''*''], True, [''*''], [''*''])]
   \<and> preflight app origin requested_method requested_headers
       = (if requested_method \<in> set [''DELETE'', ''GET'', ''HEAD'', ''OPTIONS'', ''PATCH'',
                                      ''POST'', ''PUT'']
          then Preflight_ok else Preflight_refused [''method''])"
  by (simp add: user_middleware_eq preflight_def preflight_failures_def is_allowed_origin_def
      ALL_METHODS_def split: option.split)

text \<open>
  \<^bold>\<open>C8\<close> without the restriction, every method for all requests, does not hold: a
  preflight for the method \<^verbatim>\<open>FOO\<close> is refused.
\<close>

theorem cors_refuses_other_method:
  "preflight app ''https://example.org'' ''FOO'' None = Preflight_refused [''method'']"
  by (simp add: user_middleware_eq preflight_def preflight_failures_def is_allowed_origin_def
      ALL_METHODS_def)



text \<open>
  \<^bold>\<open>C10\<close> (for the service and the controller). No method of \<^verbatim>\<open>UserService\<close> raises: for every argument each
  of the five returns its constant, so the service has no error path. Of the controller's
  handlers \<^verbatim>\<open>get_user\<close> raises and the other four do not. Outside the two, the entry
  point of \<^verbatim>\<open>main.py\<close> can fail, with \<^verbatim>\<open>ValueError\<close> and only when \<^verbatim>\<open>PORT\<close> is set.
\<close>

theorem service_never_raises:
  "fst (get_all self w) = Inr (PyList [])
   \<and> fst (get_by_id self user_id w) = Inr PyNone
   \<and> fst (create self user_data w) = Inr PyNone
   \<and> fst (update self user_id user_update w) = Inr PyNone
   \<and> fst (delete self user_id w) = Inr (PyBool False)
   \<and> isl (fst (get_user user_id w))
   \<and> \<not> isl (fst (get_all_users w))
   \<and> \<not> isl (fst (create_user user_data w))
   \<and> \<not> isl (fst (update_user user_id user_update w))
   \<and> \<not> isl (fst (delete_user user_id w))
   \<and> (main lim dotenv environ = Inl e \<longrightarrow>
        e = ValueError \<and> load_dotenv dotenv environ ''PORT'' \<noteq> None)"
proof -
  have "e = ValueError \<and> load_dotenv dotenv environ ''PORT'' \<noteq> None"
    if "main lim dotenv environ = Inl e"
    using that int_of_str_error [of lim _ e]
    by (auto simp: main_def os_getenv_def split: option.splits sum.splits)
  then show ?thesis
    by (simp add: get_all_def get_by_id_def create_def update_def delete_def get_user_def
        get_all_users_def create_user_def update_user_def delete_user_def)
qed

theorem service_never_raises_witness:
  "main 4300 Map.empty [''PORT'' \<mapsto> ''-1.5''] = Inl ValueError
   \<and> load_dotenv Map.empty [''PORT'' \<mapsto> ''-1.5''] ''PORT'' \<noteq> None"
proof -
  have "main 4300 Map.empty [''PORT'' \<mapsto> ''-1.5''] = Inl ValueError"
    by (simp add: main_def os_getenv_def load_dotenv_def int_of_str_def to_ascii_def strip_def
        is_space_def parse_nat_def digit_of_def is_digit_def)
  then show ?thesis
    using service_never_raises [where lim = 4300 and dotenv = Map.empty
        and environ = "[''PORT'' \<mapsto> ''-1.5'']" and e = ValueError]
    by (simp add: load_dotenv_def)
qed

text \<open>
  \<^bold>\<open>C10\<close> for the whole repository, that every error is signalled in the controller,
  does not hold: with \<^verbatim>\<open>PORT=http\<close> the entry point raises \<^verbatim>\<open>ValueError\<close>.
\<close>

theorem entry_point_raises_ValueError:
  "main 4300 Map.empty [''PORT'' \<mapsto> ''http''] = Inl ValueError"
  by (simp add: main_def os_getenv_def load_dotenv_def int_of_str_examples)

end
